theory Spec2Isabelle
  imports Main "HOL-Library.Word"
begin

unbundle bit_operations_syntax

section \<open>The listener of dlls/webservices/listener.c\<close>

text \<open>
  The embedding follows \<^verbatim>\<open>listener.c\<close> function by function. A C pointer that may be
  null is an \<open>option\<close> (\<open>None\<close> is the null pointer); an object updated through a pointer
  is passed in and returned updated. Calls that leave the file (Winsock, the heap, the URL
  decoder) are recorded, in call order, in the \<open>trace\<close> of a \<open>world\<close>; what they answer
  is read from a record of answers that every theorem quantifies over. The model is
  sequential: the critical section of a listener and the \<^verbatim>\<open>TRACE\<close>/\<^verbatim>\<open>FIXME\<close> log lines are
  left out, and so are the \<^verbatim>\<open>error\<close>, \<^verbatim>\<open>ctx\<close> and \<^verbatim>\<open>desc\<close> arguments, which the code only logs.
\<close>

subsection \<open>Result codes\<close>

type_synonym HRESULT = "32 word"
type_synonym byte = "8 word"
type_synonym WCHAR = "16 word"
type_synonym USHORT = "16 word"

text \<open>
  Modelled from the spec: the result codes are declared in \<^verbatim>\<open>winerror.h\<close> and
  \<^verbatim>\<open>webservices.h\<close>, which \<^verbatim>\<open>listener.c\<close> only includes. The spec names them as the error
  kinds \<open>InvalidArgument\<close>, \<open>InvalidOperation\<close>, \<open>NotImplemented\<close>, \<open>OutOfMemory\<close> and
  \<open>AddressNotAvailable\<close>; the numeric values below are those of the Windows SDK. The
  theorems use of them only that they differ from one another and from \<^verbatim>\<open>S_OK\<close>.
\<close>

definition S_OK :: HRESULT where
  "S_OK = 0"

definition E_NOTIMPL :: HRESULT where
  "E_NOTIMPL = 0x80004001"

definition E_OUTOFMEMORY :: HRESULT where
  "E_OUTOFMEMORY = 0x8007000E"

definition E_INVALIDARG :: HRESULT where
  "E_INVALIDARG = 0x80070057"

definition WS_E_INVALID_OPERATION :: HRESULT where
  "WS_E_INVALID_OPERATION = 0x803D0003"

definition WS_E_ADDRESS_NOT_AVAILABLE :: HRESULT where
  "WS_E_ADDRESS_NOT_AVAILABLE = 0x803D000C"

definition FACILITY_WIN32 :: "32 word" where
  "FACILITY_WIN32 = 7"

text \<open>
  Modelled from the spec: \<^verbatim>\<open>HRESULT_FROM_WIN32\<close> is declared in \<^verbatim>\<open>winerror.h\<close>. The spec has
  "transport-subsystem errors translated from the platform's last-error code"; the
  translation of the header is
  \<^verbatim>\<open>(HRESULT)x > 0 ? ((x & 0x0000FFFF) | (FACILITY_WIN32 << 16) | 0x80000000) : (HRESULT)x\<close>.
\<close>

definition HRESULT_FROM_WIN32 :: "32 word \<Rightarrow> HRESULT" where
  "HRESULT_FROM_WIN32 x =
     (if 0 < sint x then (x AND 0x0000FFFF) OR push_bit 16 FACILITY_WIN32 OR 0x80000000
      else x)"

subsection \<open>Enumerations and constants of the headers\<close>

text \<open>
  Modelled from the spec: the enumerations are declared in \<^verbatim>\<open>webservices.h\<close>. The spec has
  the states \<open>Created\<close>, \<open>Open\<close> and \<open>Closed\<close>; \<^verbatim>\<open>WS_LISTENER_STATE\<close> is given here with
  all its members in declaration order, so that zero-filled memory reads as
  \<open>WS_LISTENER_STATE_CREATED\<close>.
\<close>

datatype WS_LISTENER_STATE =
    WS_LISTENER_STATE_CREATED
  | WS_LISTENER_STATE_OPENING
  | WS_LISTENER_STATE_ACCEPTING
  | WS_LISTENER_STATE_OPEN
  | WS_LISTENER_STATE_FAULTED
  | WS_LISTENER_STATE_CLOSING
  | WS_LISTENER_STATE_CLOSED

text \<open>
  Modelled from the spec: \<^verbatim>\<open>WS_CHANNEL_TYPE\<close> and \<^verbatim>\<open>WS_CHANNEL_BINDING\<close> are declared in
  \<^verbatim>\<open>webservices.h\<close>. The spec has "session-oriented duplex channel over a
  connection-oriented (stream) transport binding" for the two members the code names. Both
  enumerations are kept as the integers a C caller passes, so that every other value,
  inside the enumeration or not, is covered; the values are those of the header.
\<close>

type_synonym WS_CHANNEL_TYPE = "32 word"
type_synonym WS_CHANNEL_BINDING = "32 word"

definition WS_CHANNEL_TYPE_DUPLEX_SESSION :: WS_CHANNEL_TYPE where
  "WS_CHANNEL_TYPE_DUPLEX_SESSION = 7"

definition WS_TCP_CHANNEL_BINDING :: WS_CHANNEL_BINDING where
  "WS_TCP_CHANNEL_BINDING = 1"

definition WS_UDP_CHANNEL_BINDING :: WS_CHANNEL_BINDING where
  "WS_UDP_CHANNEL_BINDING = 2"

text \<open>
  Modelled from the spec: \<^verbatim>\<open>SOCKET\<close> and the address families are declared in the Winsock
  headers. The spec has a socket that is "absent (sentinel no socket)" and the address
  families "IPv4 or IPv6". \<^verbatim>\<open>SOCKET\<close> is \<^verbatim>\<open>UINT_PTR\<close>, here of the 64-bit build; the code writes
  the sentinel as \<^verbatim>\<open>-1\<close>. The families carry the values of the header.
\<close>

type_synonym SOCKET = "64 word"

definition INVALID_SOCKET :: SOCKET where
  "INVALID_SOCKET = - 1"

definition AF_INET :: int where
  "AF_INET = 2"

definition AF_INET6 :: int where
  "AF_INET6 = 23"

definition LISTENER_MAGIC :: "32 word" where
  "LISTENER_MAGIC = push_bit 24 0x4C OR push_bit 16 0x49 OR push_bit 8 0x53 OR 0x54"

text \<open>
  \<^verbatim>\<open>WS_LISTENER_PROPERTY_ID\<close>: the position of each row of \<^verbatim>\<open>listener_props\<close>, as the
  comments of that table give it.
\<close>

definition WS_LISTENER_PROPERTY_STATE :: nat where
  "WS_LISTENER_PROPERTY_STATE = 2"

definition WS_LISTENER_PROPERTY_CHANNEL_TYPE :: nat where
  "WS_LISTENER_PROPERTY_CHANNEL_TYPE = 4"

definition WS_LISTENER_PROPERTY_CHANNEL_BINDING :: nat where
  "WS_LISTENER_PROPERTY_CHANNEL_BINDING = 5"

definition WS_LISTENER_PROPERTY_CUSTOM_LISTENER_INSTANCE :: nat where
  "WS_LISTENER_PROPERTY_CUSTOM_LISTENER_INSTANCE = 15"

subsection \<open>The property table\<close>

text \<open>
  Modelled from the spec: the types whose \<^verbatim>\<open>sizeof\<close> the rows of \<^verbatim>\<open>listener_props\<close> take are
  declared in the headers; the spec has only that a row carries a \<open>byteSize\<close>, 0 for a
  field of variable length. The sizes are those of the 64-bit build: a pointer is 8 bytes,
  \<^verbatim>\<open>WS_CUSTOM_LISTENER_CALLBACKS\<close> is ten function pointers and
  \<^verbatim>\<open>WS_DISALLOWED_USER_AGENT_SUBSTRINGS\<close> a count and a pointer. The rows, their order and
  their read-only flags are those of \<^verbatim>\<open>listener.c\<close>.
\<close>

definition sizeof_ULONG :: nat where
  "sizeof_ULONG = 4"

definition sizeof_enum :: nat where
  "sizeof_enum = 4"

definition sizeof_BOOL :: nat where
  "sizeof_BOOL = 4"

definition sizeof_ptr :: nat where
  "sizeof_ptr = 8"

record prop_desc =
  size_d :: nat
  readonly_d :: bool

definition listener_props :: "prop_desc list" where
  "listener_props =
     [ \<lparr>size_d = sizeof_ULONG, readonly_d = False\<rparr>,
       \<lparr>size_d = sizeof_enum, readonly_d = False\<rparr>,
       \<lparr>size_d = sizeof_enum, readonly_d = True\<rparr>,
       \<lparr>size_d = sizeof_enum, readonly_d = False\<rparr>,
       \<lparr>size_d = sizeof_enum, readonly_d = True\<rparr>,
       \<lparr>size_d = sizeof_enum, readonly_d = True\<rparr>,
       \<lparr>size_d = sizeof_ULONG, readonly_d = False\<rparr>,
       \<lparr>size_d = sizeof_BOOL, readonly_d = False\<rparr>,
       \<lparr>size_d = 0, readonly_d = False\<rparr>,
       \<lparr>size_d = sizeof_BOOL, readonly_d = False\<rparr>,
       \<lparr>size_d = sizeof_ULONG, readonly_d = False\<rparr>,
       \<lparr>size_d = sizeof_ULONG, readonly_d = False\<rparr>,
       \<lparr>size_d = sizeof_ULONG, readonly_d = False\<rparr>,
       \<lparr>size_d = 10 * sizeof_ptr, readonly_d = False\<rparr>,
       \<lparr>size_d = 0, readonly_d = False\<rparr>,
       \<lparr>size_d = sizeof_ptr, readonly_d = True\<rparr>,
       \<lparr>size_d = 2 * sizeof_ptr, readonly_d = False\<rparr> ]"

text \<open>
  A slot of the table (\<^verbatim>\<open>struct prop\<close>): the bytes its value pointer refers to, the size
  the schema declares (0 for a variable-size field) and the read-only flag.
\<close>

record prop_slot =
  bytes_p :: "byte list"
  size_p :: nat
  readonly_p :: bool

text \<open>
  Modelled from the spec: \<^verbatim>\<open>prop_init\<close> is declared in \<^verbatim>\<open>webservices_private.h\<close> and
  defined outside \<^verbatim>\<open>listener.c\<close>. The spec: it "lays out each slot's value pointer into
  backingBuffer according to schema order and sizes; zero-fills fixed-size slots;
  establishes size metadata so get/set can validate". The backing buffer is the
  zero-filled tail of the listener's allocation.
\<close>

definition prop_init :: "prop_desc list \<Rightarrow> nat \<Rightarrow> prop_slot list" where
  "prop_init desc count =
     map (\<lambda>d. \<lparr>bytes_p = replicate (size_d d) 0, size_p = size_d d, readonly_p = readonly_d d\<rparr>)
       (take count desc)"

text \<open>
  Modelled from the spec: \<^verbatim>\<open>prop_set\<close> is defined outside \<^verbatim>\<open>listener.c\<close>. The spec: set
  "fails with InvalidArgument if id is out of range, if the field is read-only, if size
  does not match the schema's declared fixed size (when non-zero), or if size == 0 was
  supplied for a fixed-size field without a value. For variable-size fields, replaces the
  stored byte span with a copy of the supplied bytes (size may vary per call). Succeeds by
  overwriting the slot in place." The argument \<open>val\<close> is the memory the value pointer
  refers to, of which \<open>sz\<close> bytes are copied.
\<close>

definition prop_set ::
  "prop_slot list \<Rightarrow> nat \<Rightarrow> nat \<Rightarrow> byte list \<Rightarrow> nat \<Rightarrow> HRESULT \<times> prop_slot list" where
  "prop_set ps count ident val sz =
     (if count \<le> ident then (E_INVALIDARG, ps)
      else if readonly_p (ps ! ident) then (E_INVALIDARG, ps)
      else if size_p (ps ! ident) \<noteq> 0 \<and> sz \<noteq> size_p (ps ! ident) then (E_INVALIDARG, ps)
      else (S_OK, ps[ident := (ps ! ident)\<lparr>bytes_p := take sz val\<rparr>]))"

text \<open>
  Modelled from the spec: \<^verbatim>\<open>prop_get\<close> is defined outside \<^verbatim>\<open>listener.c\<close>. The spec: get
  "fails with InvalidArgument if id is out of range or bufferSize does not equal the
  field's actual stored size; otherwise copies the stored bytes into buffer". The result
  is the code and, on success, the bytes copied out.
\<close>

definition prop_get :: "prop_slot list \<Rightarrow> nat \<Rightarrow> nat \<Rightarrow> nat \<Rightarrow> HRESULT \<times> byte list option" where
  "prop_get ps count ident sz =
     (if count \<le> ident then (E_INVALIDARG, None)
      else if sz \<noteq> length (bytes_p (ps ! ident)) then (E_INVALIDARG, None)
      else (S_OK, Some (bytes_p (ps ! ident))))"

subsection \<open>The listener object and the outside world\<close>

record listener =
  magic :: "32 word"
  channel_type :: WS_CHANNEL_TYPE
  binding :: WS_CHANNEL_BINDING
  state :: WS_LISTENER_STATE
  socket :: SOCKET
  prop_count :: nat
  props :: "prop_slot list"

record sockaddr =
  sa_family :: "16 word"
  sa_data :: "byte list"

text \<open>One node of the \<^verbatim>\<open>ADDRINFOW\<close> chain; \<^verbatim>\<open>ai_next\<close> is the rest of the list.\<close>

record addrinfo =
  ai_family :: int
  ai_addr :: sockaddr
  ai_addrlen :: nat

datatype event =
    Ev_InitOnceExecuteOnce
  | Ev_WSAStartup
  | Ev_WsCreateHeap
  | Ev_WsDecodeUrl "WCHAR list"
  | Ev_WsFreeHeap
  | Ev_GetAddrInfoW "WCHAR list option" USHORT
  | Ev_FreeAddrInfoW
  | Ev_socket "16 word"
  | Ev_bind SOCKET sockaddr nat
  | Ev_listen SOCKET int
  | Ev_closesocket SOCKET
  | Ev_heap_alloc_listener
  | Ev_heap_free_listener
  | Ev_heap_alloc_host
  | Ev_heap_free_host
  | Ev_InitializeCriticalSection
  | Ev_DeleteCriticalSection

text \<open>
  The process: the calls made so far, the \<^verbatim>\<open>INIT_ONCE\<close> of \<^verbatim>\<open>winsock_init\<close> and the
  static \<^verbatim>\<open>winsock_loaded\<close>.
\<close>

record world =
  trace :: "event list"
  once :: bool
  winsock_loaded :: bool

definition emit :: "event list \<Rightarrow> world \<Rightarrow> world" where
  "emit evs w = w\<lparr>trace := trace w @ evs\<rparr>"

text \<open>
  What the outside answers during one call of \<^verbatim>\<open>WsOpenListener\<close>: the return values of
  the calls, the value \<^verbatim>\<open>WSAGetLastError\<close> has where the code reads it after each of them,
  and the contents of the uninitialised local \<^verbatim>\<open>storage\<close>.
\<close>

record answers =
  WSAStartup_ret :: int
  WsCreateHeap_hr :: HRESULT
  WsDecodeUrl_hr :: HRESULT
  url_host :: "WCHAR list"
  url_port :: USHORT
  host_alloc_ok :: bool
  GetAddrInfoW_ret :: int
  GetAddrInfoW_res :: "addrinfo list"
  GetAddrInfoW_err :: "32 word"
  storage :: sockaddr
  socket_ret :: SOCKET
  socket_err :: "32 word"
  bind_ret :: int
  bind_err :: "32 word"
  listen_ret :: int
  listen_err :: "32 word"

subsection \<open>Process bootstrap\<close>

text \<open>
  \<^verbatim>\<open>winsock_startup\<close> sets \<^verbatim>\<open>winsock_loaded\<close> when \<^verbatim>\<open>WSAStartup\<close> returns 0 and always returns
  \<^verbatim>\<open>TRUE\<close>; \<^verbatim>\<open>winsock_init\<close> calls \<^verbatim>\<open>InitOnceExecuteOnce\<close>, which runs it only while the
  \<^verbatim>\<open>INIT_ONCE\<close> is still unset.
\<close>

definition winsock_startup :: "int \<Rightarrow> world \<Rightarrow> world" where
  "winsock_startup ret w =
     (let w1 = emit [Ev_WSAStartup] w
      in if ret = 0 then w1\<lparr>winsock_loaded := True\<rparr> else w1)"

definition winsock_init :: "int \<Rightarrow> world \<Rightarrow> world" where
  "winsock_init ret w =
     (let w1 = emit [Ev_InitOnceExecuteOnce] w
      in if once w1 then w1 else (winsock_startup ret w1)\<lparr>once := True\<rparr>)"

subsection \<open>Allocation, reset and release\<close>

text \<open>
  \<^verbatim>\<open>alloc_listener\<close>: \<^verbatim>\<open>heap_alloc_zero\<close> either fails (\<open>ok = False\<close>, the null pointer) or
  gives a zero-filled block, in which the tag and the property table are then set up.
\<close>

definition alloc_listener :: "bool \<Rightarrow> world \<Rightarrow> listener option \<times> world" where
  "alloc_listener ok w =
     (let count = length listener_props
      in if \<not> ok then (None, w)
         else (Some \<lparr>magic = LISTENER_MAGIC, channel_type = 0, binding = 0,
                     state = WS_LISTENER_STATE_CREATED, socket = 0, prop_count = count,
                     props = prop_init listener_props count\<rparr>,
               emit [Ev_heap_alloc_listener, Ev_InitializeCriticalSection] w))"

definition reset_listener :: "listener \<Rightarrow> world \<Rightarrow> listener \<times> world" where
  "reset_listener l w =
     (l\<lparr>socket := - 1, state := WS_LISTENER_STATE_CREATED\<rparr>, emit [Ev_closesocket (socket l)] w)"

text \<open>\<^verbatim>\<open>free_listener\<close> ends with \<^verbatim>\<open>heap_free\<close>: no object is left, only the world.\<close>

definition free_listener :: "listener \<Rightarrow> world \<Rightarrow> world" where
  "free_listener l w =
     (case reset_listener l w of
        (l1, w1) \<Rightarrow> emit [Ev_DeleteCriticalSection, Ev_heap_free_listener] w1)"

subsection \<open>Construction\<close>

record WS_LISTENER_PROPERTY =
  id_prop :: nat
  value_prop :: "byte list"
  valueSize_prop :: nat

text \<open>
  The \<^verbatim>\<open>for\<close> loop of \<^verbatim>\<open>create_listener\<close> over \<^verbatim>\<open>properties[i]\<close>, \<^verbatim>\<open>i < count\<close>: it stops at
  the first \<^verbatim>\<open>prop_set\<close> whose result is not \<^verbatim>\<open>S_OK\<close>.
\<close>

fun set_properties ::
  "prop_slot list \<Rightarrow> nat \<Rightarrow> WS_LISTENER_PROPERTY list \<Rightarrow> HRESULT \<times> prop_slot list" where
  "set_properties ps count [] = (S_OK, ps)"
| "set_properties ps count (p # rest) =
     (case prop_set ps count (id_prop p) (value_prop p) (valueSize_prop p) of
        (hr, ps1) \<Rightarrow> if hr \<noteq> S_OK then (hr, ps1) else set_properties ps1 count rest)"

definition create_listener ::
  "bool \<Rightarrow> WS_CHANNEL_TYPE \<Rightarrow> WS_CHANNEL_BINDING \<Rightarrow> WS_LISTENER_PROPERTY list \<Rightarrow> world
     \<Rightarrow> HRESULT \<times> listener option \<times> world" where
  "create_listener ok ty bnd properties w =
     (case alloc_listener ok w of
        (None, w1) \<Rightarrow> (E_OUTOFMEMORY, None, w1)
      | (Some l, w1) \<Rightarrow>
          (case set_properties (props l) (prop_count l) properties of
             (hr, ps) \<Rightarrow>
               if hr \<noteq> S_OK then (hr, None, free_listener (l\<lparr>props := ps\<rparr>) w1)
               else (S_OK,
                     Some (l\<lparr>props := ps, channel_type := ty, binding := bnd, socket := - 1\<rparr>),
                     w1)))"

text \<open>
  \<^verbatim>\<open>WsCreateListener\<close>. The out-parameter \<^verbatim>\<open>handle\<close> is \<open>None\<close> when the caller passes a
  null pointer and \<open>Some h\<close> when it points at a slot now holding \<open>h\<close>; the slot is
  returned as the call leaves it.
\<close>

definition WsCreateListener ::
  "bool \<Rightarrow> WS_CHANNEL_TYPE \<Rightarrow> WS_CHANNEL_BINDING \<Rightarrow> WS_LISTENER_PROPERTY list
     \<Rightarrow> listener option option \<Rightarrow> world \<Rightarrow> HRESULT \<times> listener option option \<times> world" where
  "WsCreateListener ok ty bnd properties handle w =
     (if handle = None then (E_INVALIDARG, handle, w)
      else if ty \<noteq> WS_CHANNEL_TYPE_DUPLEX_SESSION then (E_NOTIMPL, handle, w)
      else if bnd \<noteq> WS_TCP_CHANNEL_BINDING then (E_NOTIMPL, handle, w)
      else (case create_listener ok ty bnd properties w of
              (hr, l, w1) \<Rightarrow>
                if hr \<noteq> S_OK then (hr, handle, w1) else (S_OK, Some l, w1)))"

text \<open>
  \<^verbatim>\<open>WsFreeListener\<close>. The result \<open>None\<close> for a handle that was live means that its block
  has been given back to the heap: the caller's pointer now dangles, and the model has no
  object for it any more.
\<close>

definition WsFreeListener :: "listener option \<Rightarrow> world \<Rightarrow> listener option \<times> world" where
  "WsFreeListener handle w =
     (case handle of
        None \<Rightarrow> (None, w)
      | Some l \<Rightarrow>
          if magic l \<noteq> LISTENER_MAGIC then (Some l, w)
          else (None, free_listener (l\<lparr>magic := 0\<rparr>) w))"

subsection \<open>Address resolution\<close>

text \<open>
  The \<^verbatim>\<open>while\<close> loop of \<^verbatim>\<open>resolve_hostname\<close>: \<^verbatim>\<open>info\<close> walks along \<^verbatim>\<open>ai_next\<close> while the node
  is neither \<^verbatim>\<open>AF_INET\<close> nor \<^verbatim>\<open>AF_INET6\<close>; the result is the chain from the node it stops
  at (empty for the null pointer).
\<close>

fun skip_other_families :: "addrinfo list \<Rightarrow> addrinfo list" where
  "skip_other_families [] = []"
| "skip_other_families (info # rest) =
     (if ai_family info \<noteq> AF_INET \<and> ai_family info \<noteq> AF_INET6
      then skip_other_families rest else info # rest)"

text \<open>
  \<^verbatim>\<open>resolve_hostname\<close> returns the code, the contents of \<^verbatim>\<open>addr\<close> and \<^verbatim>\<open>*addr_len\<close>. The
  \<^verbatim>\<open>memcpy\<close> of \<^verbatim>\<open>ai_addrlen\<close> bytes is the assignment of the whole address, \<^verbatim>\<open>ai_addr\<close>
  being \<^verbatim>\<open>ai_addrlen\<close> bytes long.
\<close>

definition resolve_hostname ::
  "answers \<Rightarrow> WCHAR list option \<Rightarrow> USHORT \<Rightarrow> sockaddr \<Rightarrow> world
     \<Rightarrow> HRESULT \<times> sockaddr \<times> nat \<times> world" where
  "resolve_hostname env host port addr w =
     (let w1 = emit [Ev_GetAddrInfoW host port] w
      in if GetAddrInfoW_ret env \<noteq> 0
         then (HRESULT_FROM_WIN32 (GetAddrInfoW_err env), addr, 0, w1)
         else (case skip_other_families (GetAddrInfoW_res env) of
                 [] \<Rightarrow> (WS_E_ADDRESS_NOT_AVAILABLE, addr, 0, emit [Ev_FreeAddrInfoW] w1)
               | info # rest \<Rightarrow>
                   (S_OK, ai_addr info, ai_addrlen info, emit [Ev_FreeAddrInfoW] w1)))"

subsection \<open>Opening\<close>

text \<open>
  \<^verbatim>\<open>parse_url\<close>: \<open>Inl\<close> carries the code of a failing return, \<open>Inr\<close> the host (\<open>None\<close>
  for the wildcards \<^verbatim>\<open>+\<close> and \<^verbatim>\<open>*\<close>) and the port. \<^verbatim>\<open>WsCreateHeap\<close> and \<^verbatim>\<open>WsDecodeUrl\<close>
  answer through the record of answers.
\<close>

definition parse_url ::
  "answers \<Rightarrow> WCHAR list \<Rightarrow> world \<Rightarrow> (HRESULT + WCHAR list option \<times> USHORT) \<times> world" where
  "parse_url env str w =
     (let w1 = emit [Ev_WsCreateHeap] w
      in if WsCreateHeap_hr env \<noteq> S_OK then (Inl (WsCreateHeap_hr env), w1)
         else let w2 = emit [Ev_WsDecodeUrl str] w1
           in if WsDecodeUrl_hr env \<noteq> S_OK
              then (Inl (WsDecodeUrl_hr env), emit [Ev_WsFreeHeap] w2)
              else if length (url_host env) = 1
                      \<and> (url_host env ! 0 = 0x2B \<or> url_host env ! 0 = 0x2A)
              then (Inr (None, url_port env), emit [Ev_WsFreeHeap] w2)
              else if \<not> host_alloc_ok env
              then (Inl E_OUTOFMEMORY, emit [Ev_WsFreeHeap] w2)
              else (Inr (Some (url_host env), url_port env),
                    emit [Ev_heap_alloc_host, Ev_WsFreeHeap] w2))"

text \<open>\<^verbatim>\<open>heap_free( host )\<close>: recorded when there is a block to give back, not for the null host.\<close>

definition heap_free_host :: "WCHAR list option \<Rightarrow> world \<Rightarrow> world" where
  "heap_free_host host w = (if host = None then w else emit [Ev_heap_free_host] w)"

definition open_listener ::
  "answers \<Rightarrow> listener \<Rightarrow> WCHAR list \<Rightarrow> world \<Rightarrow> HRESULT \<times> listener \<times> world" where
  "open_listener env l url w =
     (case parse_url env url w of
        (Inl hr, w1) \<Rightarrow> (hr, l, w1)
      | (Inr (host, port), w1) \<Rightarrow>
          (let w2 = winsock_init (WSAStartup_ret env) w1
           in case resolve_hostname env host port (storage env) w2 of
                (hr, addr, addr_len, w3) \<Rightarrow>
                  (let w4 = heap_free_host host w3
                   in if hr \<noteq> S_OK then (hr, l, w4)
                      else let l1 = l\<lparr>socket := socket_ret env\<rparr>;
                               w5 = emit [Ev_socket (sa_family addr)] w4
                        in if socket l1 = - 1
                           then (HRESULT_FROM_WIN32 (socket_err env), l1, w5)
                           else if bind_ret env < 0
                           then (HRESULT_FROM_WIN32 (bind_err env), l1\<lparr>socket := - 1\<rparr>,
                                 emit [Ev_bind (socket l1) addr addr_len,
                                       Ev_closesocket (socket l1)] w5)
                           else if listen_ret env < 0
                           then (HRESULT_FROM_WIN32 (listen_err env), l1\<lparr>socket := - 1\<rparr>,
                                 emit [Ev_bind (socket l1) addr addr_len,
                                       Ev_listen (socket l1) 0,
                                       Ev_closesocket (socket l1)] w5)
                           else (S_OK, l1\<lparr>state := WS_LISTENER_STATE_OPEN\<rparr>,
                                 emit [Ev_bind (socket l1) addr addr_len,
                                       Ev_listen (socket l1) 0] w5))))"

definition WsOpenListener ::
  "answers \<Rightarrow> listener option \<Rightarrow> WCHAR list option \<Rightarrow> world
     \<Rightarrow> HRESULT \<times> listener option \<times> world" where
  "WsOpenListener env handle url w =
     (case (handle, url) of
        (Some l, Some u) \<Rightarrow>
          if magic l \<noteq> LISTENER_MAGIC then (E_INVALIDARG, handle, w)
          else if state l \<noteq> WS_LISTENER_STATE_CREATED then (WS_E_INVALID_OPERATION, handle, w)
          else (case open_listener env l u w of (hr, l1, w1) \<Rightarrow> (hr, Some l1, w1))
      | _ \<Rightarrow> (E_INVALIDARG, handle, w))"

subsection \<open>Closing\<close>

definition close_listener :: "listener \<Rightarrow> world \<Rightarrow> listener \<times> world" where
  "close_listener l w =
     (case reset_listener l w of (l1, w1) \<Rightarrow> (l1\<lparr>state := WS_LISTENER_STATE_CLOSED\<rparr>, w1))"

definition WsCloseListener :: "listener option \<Rightarrow> world \<Rightarrow> HRESULT \<times> listener option \<times> world" where
  "WsCloseListener handle w =
     (case handle of
        None \<Rightarrow> (E_INVALIDARG, handle, w)
      | Some l \<Rightarrow>
          if magic l \<noteq> LISTENER_MAGIC then (E_INVALIDARG, handle, w)
          else (case close_listener l w of (l1, w1) \<Rightarrow> (S_OK, Some l1, w1)))"

text \<open>\<^verbatim>\<open>WsCloseListener\<close> called \<open>n\<close> times in a row on the same handle: the codes, in call order.\<close>

fun close_repeatedly ::
  "nat \<Rightarrow> listener option \<Rightarrow> world \<Rightarrow> HRESULT list \<times> listener option \<times> world" where
  "close_repeatedly 0 handle w = ([], handle, w)"
| "close_repeatedly (Suc n) handle w =
     (case WsCloseListener handle w of
        (hr, h1, w1) \<Rightarrow>
          (case close_repeatedly n h1 w1 of (hrs, h2, w2) \<Rightarrow> (hr # hrs, h2, w2)))"

subsection \<open>Property access\<close>

text \<open>
  What a caller's buffer holds: a value stored through one of the typed assignments of
  \<^verbatim>\<open>WsGetListenerProperty\<close>, or raw bytes. A buffer argument is \<open>None\<close> for the null
  pointer.
\<close>

datatype buffer =
    Buf_state WS_LISTENER_STATE
  | Buf_channel_type WS_CHANNEL_TYPE
  | Buf_channel_binding WS_CHANNEL_BINDING
  | Buf_bytes "byte list"

definition sizeof_state :: nat where
  "sizeof_state = sizeof_enum"

definition sizeof_type :: nat where
  "sizeof_type = sizeof_enum"

definition sizeof_binding :: nat where
  "sizeof_binding = sizeof_enum"

text \<open>
  \<^verbatim>\<open>WsGetListenerProperty\<close> returns the code and the buffer as the call leaves it. In the
  \<^verbatim>\<open>default\<close> branch the bytes \<^verbatim>\<open>prop_get\<close> copies out replace the buffer's contents; the
  buffer is handed to \<^verbatim>\<open>prop_get\<close> unchecked there, and a null one stays null in the model.
\<close>

definition WsGetListenerProperty ::
  "listener option \<Rightarrow> nat \<Rightarrow> buffer option \<Rightarrow> nat \<Rightarrow> HRESULT \<times> buffer option" where
  "WsGetListenerProperty handle ident buf sz =
     (case handle of
        None \<Rightarrow> (E_INVALIDARG, buf)
      | Some l \<Rightarrow>
          if magic l \<noteq> LISTENER_MAGIC then (E_INVALIDARG, buf)
          else if ident = WS_LISTENER_PROPERTY_STATE
          then (if buf = None \<or> sz \<noteq> sizeof_state then (E_INVALIDARG, buf)
                else (S_OK, Some (Buf_state (state l))))
          else if ident = WS_LISTENER_PROPERTY_CHANNEL_TYPE
          then (if buf = None \<or> sz \<noteq> sizeof_type then (E_INVALIDARG, buf)
                else (S_OK, Some (Buf_channel_type (channel_type l))))
          else if ident = WS_LISTENER_PROPERTY_CHANNEL_BINDING
          then (if buf = None \<or> sz \<noteq> sizeof_binding then (E_INVALIDARG, buf)
                else (S_OK, Some (Buf_channel_binding (binding l))))
          else (case prop_get (props l) (prop_count l) ident sz of
                  (hr, Some bs) \<Rightarrow> (hr, map_option (\<lambda>b. Buf_bytes bs) buf)
                | (hr, None) \<Rightarrow> (hr, buf)))"

definition WsSetListenerProperty ::
  "listener option \<Rightarrow> nat \<Rightarrow> byte list \<Rightarrow> nat \<Rightarrow> HRESULT \<times> listener option" where
  "WsSetListenerProperty handle ident val sz =
     (case handle of
        None \<Rightarrow> (E_INVALIDARG, handle)
      | Some l \<Rightarrow>
          if magic l \<noteq> LISTENER_MAGIC then (E_INVALIDARG, handle)
          else (case prop_set (props l) (prop_count l) ident val sz of
                  (hr, ps) \<Rightarrow> (hr, Some (l\<lparr>props := ps\<rparr>))))"

text \<open>
  A sequence of \<^verbatim>\<open>WsSetListenerProperty\<close> calls on one handle, each given as identifier,
  value and size: the codes in call order, and the handle after the last call.
\<close>

fun set_repeatedly ::
  "listener option \<Rightarrow> (nat \<times> byte list \<times> nat) list \<Rightarrow> HRESULT list \<times> listener option" where
  "set_repeatedly handle [] = ([], handle)"
| "set_repeatedly handle ((ident, val, sz) # calls) =
     (case WsSetListenerProperty handle ident val sz of
        (hr, h1) \<Rightarrow> (case set_repeatedly h1 calls of (hrs, h2) \<Rightarrow> (hr # hrs, h2)))"

section \<open>Notions used in the statements\<close>








text \<open>
  The overrides of a constructor call applied one after the other, in list order, to a
  property table, whatever each of them returns.
\<close>

definition override :: "nat \<Rightarrow> prop_slot list \<Rightarrow> WS_LISTENER_PROPERTY \<Rightarrow> HRESULT \<times> prop_slot list" where
  "override count ps p = prop_set ps count (id_prop p) (value_prop p) (valueSize_prop p)"

definition overridden :: "nat \<Rightarrow> prop_slot list \<Rightarrow> WS_LISTENER_PROPERTY list \<Rightarrow> prop_slot list" where
  "overridden count ps properties = foldl (\<lambda>t p. snd (override count t p)) ps properties"

text \<open>The property table as \<^verbatim>\<open>alloc_listener\<close> sets it up, before any override.\<close>

definition default_table :: "prop_slot list" where
  "default_table = prop_init listener_props (length listener_props)"

text \<open>The identifiers whose row of \<^verbatim>\<open>listener_props\<close> is marked read-only.\<close>

definition read_only_id :: "nat \<Rightarrow> bool" where
  "read_only_id ident \<longleftrightarrow> ident < length listener_props \<and> readonly_d (listener_props ! ident)"

text \<open>
  The property table of a listener carries the sizes and flags of \<^verbatim>\<open>listener_props\<close>, as
  \<^verbatim>\<open>alloc_listener\<close> sets it up.
\<close>

definition table_of_schema :: "listener \<Rightarrow> bool" where
  "table_of_schema l \<longleftrightarrow>
     prop_count l = length listener_props \<and>
     map readonly_p (props l) = map readonly_d listener_props \<and>
     map size_p (props l) = map size_d listener_props"

section \<open>Example inputs\<close>

definition fresh_world :: world where
  "fresh_world = \<lparr>trace = [], once = False, winsock_loaded = False\<rparr>"

text \<open>The listener \<^verbatim>\<open>WsCreateListener\<close> builds when given no overrides.\<close>

definition created_listener :: listener where
  "created_listener =
     \<lparr>magic = LISTENER_MAGIC, channel_type = WS_CHANNEL_TYPE_DUPLEX_SESSION,
      binding = WS_TCP_CHANNEL_BINDING, state = WS_LISTENER_STATE_CREATED,
      socket = INVALID_SOCKET, prop_count = length listener_props,
      props = prop_init listener_props (length listener_props)\<rparr>"

definition loopback :: sockaddr where
  "loopback = \<lparr>sa_family = 2, sa_data = [0, 0, 127, 0, 0, 1]\<rparr>"

definition unused_storage :: sockaddr where
  "unused_storage = \<lparr>sa_family = 0, sa_data = []\<rparr>"

text \<open>
  Answers under which every call succeeds; the lookup returns a node of another family
  (\<^verbatim>\<open>AF_UNIX\<close>, 1) ahead of the IPv4 one.
\<close>

definition good_answers :: answers where
  "good_answers =
     \<lparr>WSAStartup_ret = 0, WsCreateHeap_hr = S_OK, WsDecodeUrl_hr = S_OK,
      url_host = [0x6C, 0x6F], url_port = 80, host_alloc_ok = True,
      GetAddrInfoW_ret = 0,
      GetAddrInfoW_res =
        [\<lparr>ai_family = 1, ai_addr = unused_storage, ai_addrlen = 2\<rparr>,
         \<lparr>ai_family = AF_INET, ai_addr = loopback, ai_addrlen = 16\<rparr>],
      GetAddrInfoW_err = 0, storage = unused_storage,
      socket_ret = 5, socket_err = 0, bind_ret = 0, bind_err = 0,
      listen_ret = 0, listen_err = 0\<rparr>"





text \<open>The lookup fails with \<^verbatim>\<open>WSAHOST_NOT_FOUND\<close> (11001).\<close>

definition lookup_fails :: answers where
  "lookup_fails = good_answers\<lparr>GetAddrInfoW_ret := 11001, GetAddrInfoW_err := 11001\<rparr>"

text \<open>
  Three overrides: the listen backlog (accepted), the state (read-only, refused) and the
  IP version (never reached).
\<close>

definition backlog_5 :: WS_LISTENER_PROPERTY where
  "backlog_5 = \<lparr>id_prop = 0, value_prop = [5, 0, 0, 0], valueSize_prop = 4\<rparr>"

definition state_3 :: WS_LISTENER_PROPERTY where
  "state_3 = \<lparr>id_prop = 2, value_prop = [3, 0, 0, 0], valueSize_prop = 4\<rparr>"

definition ip_version_1 :: WS_LISTENER_PROPERTY where
  "ip_version_1 = \<lparr>id_prop = 1, value_prop = [1, 0, 0, 0], valueSize_prop = 4\<rparr>"

section \<open>Basic facts\<close>

lemma codes_distinct:
  "E_OUTOFMEMORY \<noteq> S_OK" "E_INVALIDARG \<noteq> S_OK" "E_NOTIMPL \<noteq> S_OK"
  "WS_E_INVALID_OPERATION \<noteq> S_OK" "WS_E_ADDRESS_NOT_AVAILABLE \<noteq> S_OK"
  "E_INVALIDARG \<noteq> E_NOTIMPL" "E_OUTOFMEMORY \<noteq> E_NOTIMPL"
  by (simp_all add: E_OUTOFMEMORY_def E_INVALIDARG_def E_NOTIMPL_def S_OK_def
      WS_E_INVALID_OPERATION_def WS_E_ADDRESS_NOT_AVAILABLE_def)


text \<open>The translation of a Win32 code is \<^verbatim>\<open>S_OK\<close> for the code 0 only.\<close>

lemma HRESULT_FROM_WIN32_eq_S_OK: "HRESULT_FROM_WIN32 x = S_OK \<longleftrightarrow> x = 0"
proof (cases "0 < sint x")
  case True
  then have "x \<noteq> 0" by auto
  moreover have "(x AND 0x0000FFFF) OR push_bit 16 FACILITY_WIN32 OR 0x80000000 \<noteq> (0::32 word)"
    by (simp add: or_eq_0_iff)
  ultimately show ?thesis using True by (simp add: HRESULT_FROM_WIN32_def S_OK_def)
next
  case False
  then show ?thesis by (simp add: HRESULT_FROM_WIN32_def S_OK_def)
qed

lemma emit_emit: "emit ys (emit xs w) = emit (xs @ ys) w"
  by (simp add: emit_def)

section \<open>Opening a listener\<close>



















section \<open>Closing a listener\<close>

lemma WsCloseListener_live:
  assumes "magic l = LISTENER_MAGIC"
  shows "WsCloseListener (Some l) w =
     (S_OK, Some (l\<lparr>socket := INVALID_SOCKET, state := WS_LISTENER_STATE_CLOSED\<rparr>),
      emit [Ev_closesocket (socket l)] w)"
  using assms
  by (simp add: WsCloseListener_def close_listener_def reset_listener_def INVALID_SOCKET_def)

lemma close_repeatedly_closed:
  assumes "magic l = LISTENER_MAGIC" and "socket l = INVALID_SOCKET"
    and "state l = WS_LISTENER_STATE_CLOSED"
  shows "close_repeatedly n (Some l) w =
           (replicate n S_OK, Some l, emit (replicate n (Ev_closesocket INVALID_SOCKET)) w)"
proof (induction n arbitrary: w)
  case 0
  show ?case by (simp add: emit_def)
next
  case (Suc n)
  have same: "l\<lparr>socket := INVALID_SOCKET, state := WS_LISTENER_STATE_CLOSED\<rparr> = l"
    using assms by simp
  show ?case
    using assms(1,2) Suc.IH
    by (simp add: WsCloseListener_live same emit_emit replicate_append_same)
qed

text \<open>
  Claim C3. For a live listener in any state and any number \<open>n + 1\<close> of calls of
  \<^verbatim>\<open>WsCloseListener\<close> in a row: every call returns \<^verbatim>\<open>S_OK\<close>; afterwards the socket is absent
  and the state is \<open>Closed\<close>, nothing else of the listener having changed; the first call
  hands the socket the listener held to \<^verbatim>\<open>closesocket\<close>, the later ones find it absent.
\<close>

theorem close_always_succeeds:
  assumes live: "magic l = LISTENER_MAGIC"
  shows "close_repeatedly (Suc n) (Some l) w =
           (replicate (Suc n) S_OK,
            Some (l\<lparr>socket := INVALID_SOCKET, state := WS_LISTENER_STATE_CLOSED\<rparr>),
            emit (Ev_closesocket (socket l) # replicate n (Ev_closesocket INVALID_SOCKET)) w)"
proof -
  let ?l1 = "l\<lparr>socket := INVALID_SOCKET, state := WS_LISTENER_STATE_CLOSED\<rparr>"
  have "close_repeatedly n (Some ?l1) (emit [Ev_closesocket (socket l)] w) =
          (replicate n S_OK, Some ?l1,
           emit (replicate n (Ev_closesocket INVALID_SOCKET)) (emit [Ev_closesocket (socket l)] w))"
    using live by (intro close_repeatedly_closed) simp_all
  then show ?thesis
    using live by (simp add: WsCloseListener_live emit_emit)
qed

theorem close_always_succeeds_witness:
  "magic (created_listener\<lparr>socket := 5, state := WS_LISTENER_STATE_OPEN\<rparr>) = LISTENER_MAGIC \<and>
   close_repeatedly 3 (Some (created_listener\<lparr>socket := 5, state := WS_LISTENER_STATE_OPEN\<rparr>))
       fresh_world =
     ([S_OK, S_OK, S_OK],
      Some (created_listener\<lparr>state := WS_LISTENER_STATE_CLOSED\<rparr>),
      \<lparr>trace = [Ev_closesocket 5, Ev_closesocket INVALID_SOCKET, Ev_closesocket INVALID_SOCKET],
       once = False, winsock_loaded = False\<rparr>)"
proof -
  let ?l = "created_listener\<lparr>socket := 5, state := WS_LISTENER_STATE_OPEN\<rparr>"
  have live: "magic ?l = LISTENER_MAGIC"
    by (simp add: created_listener_def)
  show ?thesis
    using live close_always_succeeds [OF live, of 2 fresh_world]
    by (simp add: created_listener_def emit_def fresh_world_def numeral_2_eq_2 numeral_3_eq_3)
qed

section \<open>Construction\<close>

lemma prop_set_codes:
  "fst (prop_set ps count ident val sz) = S_OK \<or>
   fst (prop_set ps count ident val sz) = E_INVALIDARG"
  by (simp add: prop_set_def)

lemma set_properties_codes:
  "fst (set_properties ps count properties) = S_OK \<or>
   fst (set_properties ps count properties) = E_INVALIDARG"
proof (induction properties arbitrary: ps)
  case Nil
  show ?case by simp
next
  case (Cons p rest)
  show ?case
    using prop_set_codes [of ps count "id_prop p" "value_prop p" "valueSize_prop p"]
      Cons.IH
    by (auto split: prod.splits)
qed

lemma create_listener_codes:
  "fst (create_listener ok ty bnd properties w) \<in> {S_OK, E_OUTOFMEMORY, E_INVALIDARG}"
  using set_properties_codes [of "prop_init listener_props (length listener_props)"
      "length listener_props" properties]
  by (auto simp: create_listener_def alloc_listener_def Let_def split: prod.splits)

text \<open>
  Claim C8. Called with a non-null \<^verbatim>\<open>handle\<close> out-parameter, \<^verbatim>\<open>WsCreateListener\<close> returns
  \<^verbatim>\<open>E_NOTIMPL\<close>, stores no handle and calls nothing outside for every channel type other
  than \<^verbatim>\<open>WS_CHANNEL_TYPE_DUPLEX_SESSION\<close> and for every binding other than
  \<^verbatim>\<open>WS_TCP_CHANNEL_BINDING\<close>. For that one combination it never returns \<^verbatim>\<open>E_NOTIMPL\<close>, and
  with no overrides and a successful allocation it returns \<^verbatim>\<open>S_OK\<close> and stores the handle
  of a new listener.
\<close>

theorem create_accepts_one_combination:
  "(ty \<noteq> WS_CHANNEL_TYPE_DUPLEX_SESSION \<or> bnd \<noteq> WS_TCP_CHANNEL_BINDING \<longrightarrow>
      WsCreateListener ok ty bnd properties (Some h) w = (E_NOTIMPL, Some h, w)) \<and>
   (ty = WS_CHANNEL_TYPE_DUPLEX_SESSION \<and> bnd = WS_TCP_CHANNEL_BINDING \<longrightarrow>
      fst (WsCreateListener ok ty bnd properties (Some h) w) \<noteq> E_NOTIMPL) \<and>
   (ty = WS_CHANNEL_TYPE_DUPLEX_SESSION \<and> bnd = WS_TCP_CHANNEL_BINDING \<longrightarrow>
      WsCreateListener True ty bnd [] (Some h) w =
        (S_OK, Some (Some created_listener),
         emit [Ev_heap_alloc_listener, Ev_InitializeCriticalSection] w))"
proof -
  have "fst (WsCreateListener ok WS_CHANNEL_TYPE_DUPLEX_SESSION WS_TCP_CHANNEL_BINDING
          properties (Some h) w) \<noteq> E_NOTIMPL"
    using create_listener_codes
      [of ok WS_CHANNEL_TYPE_DUPLEX_SESSION WS_TCP_CHANNEL_BINDING properties w]
    by (auto simp: WsCreateListener_def codes_distinct codes_distinct [symmetric]
        split: prod.splits)
  moreover have "WsCreateListener True WS_CHANNEL_TYPE_DUPLEX_SESSION WS_TCP_CHANNEL_BINDING
      [] (Some h) w =
        (S_OK, Some (Some created_listener),
         emit [Ev_heap_alloc_listener, Ev_InitializeCriticalSection] w)"
    by (simp add: WsCreateListener_def create_listener_def alloc_listener_def Let_def
        created_listener_def INVALID_SOCKET_def)
  ultimately show ?thesis
    by (auto simp: WsCreateListener_def)
qed

theorem create_accepts_one_combination_witness:
  "WsCreateListener True 1 WS_TCP_CHANNEL_BINDING [] (Some None) fresh_world =
     (E_NOTIMPL, Some None, fresh_world) \<and>
   WsCreateListener True WS_CHANNEL_TYPE_DUPLEX_SESSION WS_UDP_CHANNEL_BINDING [] (Some None)
       fresh_world = (E_NOTIMPL, Some None, fresh_world) \<and>
   WsCreateListener True WS_CHANNEL_TYPE_DUPLEX_SESSION WS_TCP_CHANNEL_BINDING [] (Some None)
       fresh_world =
     (S_OK, Some (Some created_listener),
      emit [Ev_heap_alloc_listener, Ev_InitializeCriticalSection] fresh_world)"
proof -
  have a: "(1::32 word) \<noteq> WS_CHANNEL_TYPE_DUPLEX_SESSION"
    by (simp add: WS_CHANNEL_TYPE_DUPLEX_SESSION_def)
  have b: "WS_UDP_CHANNEL_BINDING \<noteq> WS_TCP_CHANNEL_BINDING"
    by (simp add: WS_UDP_CHANNEL_BINDING_def WS_TCP_CHANNEL_BINDING_def)
  show ?thesis
    using a b
      create_accepts_one_combination [of 1 WS_TCP_CHANNEL_BINDING True "[]" None fresh_world]
      create_accepts_one_combination
        [of WS_CHANNEL_TYPE_DUPLEX_SESSION WS_UDP_CHANNEL_BINDING True "[]" None fresh_world]
      create_accepts_one_combination
        [of WS_CHANNEL_TYPE_DUPLEX_SESSION WS_TCP_CHANNEL_BINDING True "[]" None fresh_world]
    by blast
qed

lemma overridden_Cons:
  "overridden count ps (p # rest) = overridden count (snd (override count ps p)) rest"
  by (simp add: overridden_def)

lemma set_properties_prefix_ok:
  assumes "\<forall>k < length pre. fst (override count (overridden count ps (take k pre)) (pre ! k)) = S_OK"
  shows "set_properties ps count (pre @ rest) = set_properties (overridden count ps pre) count rest"
  using assms
proof (induction pre arbitrary: ps)
  case Nil
  show ?case by (simp add: overridden_def)
next
  case (Cons x xs)
  let ?ps1 = "snd (override count ps x)"
  from Cons.prems have "fst (override count (overridden count ps (take 0 (x # xs))) ((x # xs) ! 0)) = S_OK"
    by blast
  then have first: "fst (override count ps x) = S_OK"
    by (simp add: overridden_def)
  have "fst (override count (overridden count ?ps1 (take k xs)) (xs ! k)) = S_OK"
    if "k < length xs" for k
  proof -
    from that have "Suc k < length (x # xs)" by simp
    with Cons.prems
    have "fst (override count (overridden count ps (take (Suc k) (x # xs))) ((x # xs) ! Suc k)) = S_OK"
      by blast
    then show ?thesis
      by (simp add: overridden_Cons)
  qed
  then have "set_properties ?ps1 count (xs @ rest) =
      set_properties (overridden count ?ps1 xs) count rest"
    using Cons.IH by blast
  with first show ?case
    by (auto simp: overridden_Cons override_def split: prod.splits)
qed

lemma set_properties_first_failure:
  assumes "\<forall>k < length pre. fst (override count (overridden count ps (take k pre)) (pre ! k)) = S_OK"
    and "fst (override count (overridden count ps pre) p) \<noteq> S_OK"
  shows "set_properties ps count (pre @ p # post) = override count (overridden count ps pre) p"
  using set_properties_prefix_ok [OF assms(1), of "p # post"] assms(2)
  by (simp add: override_def split: prod.splits)

lemma set_properties_all_ok:
  assumes "\<forall>k < length properties.
     fst (override count (overridden count ps (take k properties)) (properties ! k)) = S_OK"
  shows "set_properties ps count properties = (S_OK, overridden count ps properties)"
  using set_properties_prefix_ok [OF assms, of "[]"] by simp

lemma create_listener_table:
  "create_listener True ty bnd properties w =
     (case set_properties default_table (length listener_props) properties of
        (hr, ps) \<Rightarrow>
          if hr \<noteq> S_OK
          then (hr, None,
                emit [Ev_heap_alloc_listener, Ev_InitializeCriticalSection, Ev_closesocket 0,
                      Ev_DeleteCriticalSection, Ev_heap_free_listener] w)
          else (S_OK,
                Some \<lparr>magic = LISTENER_MAGIC, channel_type = ty, binding = bnd,
                      state = WS_LISTENER_STATE_CREATED, socket = INVALID_SOCKET,
                      prop_count = length listener_props, props = ps\<rparr>,
                emit [Ev_heap_alloc_listener, Ev_InitializeCriticalSection] w))"
  by (simp add: create_listener_def alloc_listener_def free_listener_def reset_listener_def
      default_table_def Let_def emit_emit INVALID_SOCKET_def split: prod.splits)

lemma create_listener_first_failure:
  assumes "\<forall>k < length pre.
      fst (override (length listener_props)
             (overridden (length listener_props) default_table (take k pre)) (pre ! k)) = S_OK"
    and "fst (override (length listener_props)
             (overridden (length listener_props) default_table pre) p) \<noteq> S_OK"
  shows "create_listener True ty bnd (pre @ p # post) w =
           (fst (override (length listener_props)
                   (overridden (length listener_props) default_table pre) p), None,
            emit [Ev_heap_alloc_listener, Ev_InitializeCriticalSection, Ev_closesocket 0,
                  Ev_DeleteCriticalSection, Ev_heap_free_listener] w)"
proof -
  let ?n = "length listener_props"
  obtain hr ps where o: "override ?n (overridden ?n default_table pre) p = (hr, ps)"
    by (cases "override ?n (overridden ?n default_table pre) p")
  with assms(2) have "hr \<noteq> S_OK" by simp
  moreover have "set_properties default_table ?n (pre @ p # post) = (hr, ps)"
    using set_properties_first_failure [OF assms] o by simp
  ultimately show ?thesis
    using o by (simp add: create_listener_table)
qed

text \<open>
  Claim C7. \<^verbatim>\<open>create_listener\<close>, its allocation having succeeded, applies the overrides in
  the order given, each to the table the ones before it left. When the overrides before
  \<open>p\<close> all return \<^verbatim>\<open>S_OK\<close> and \<open>p\<close> does not, the result is the code of \<open>p\<close> and no
  listener, the overrides after \<open>p\<close> play no part, and the block is given back: after the
  allocation and \<^verbatim>\<open>InitializeCriticalSection\<close> come \<^verbatim>\<open>closesocket\<close> on the still zero-filled
  socket field, \<^verbatim>\<open>DeleteCriticalSection\<close> and \<^verbatim>\<open>heap_free\<close>; \<^verbatim>\<open>WsCreateListener\<close> then returns
  that code and leaves the caller's handle slot alone. When every override returns
  \<^verbatim>\<open>S_OK\<close>, the listener is built with the table all of them, in order, produce.
\<close>

theorem create_applies_overrides_in_order:
  "(properties = pre @ p # post \<and>
    (\<forall>k < length pre.
       fst (override (length listener_props)
              (overridden (length listener_props) default_table (take k pre)) (pre ! k)) = S_OK) \<and>
    fst (override (length listener_props)
           (overridden (length listener_props) default_table pre) p) \<noteq> S_OK \<longrightarrow>
      create_listener True ty bnd properties w =
        (fst (override (length listener_props)
                (overridden (length listener_props) default_table pre) p), None,
         emit [Ev_heap_alloc_listener, Ev_InitializeCriticalSection, Ev_closesocket 0,
               Ev_DeleteCriticalSection, Ev_heap_free_listener] w) \<and>
      WsCreateListener True WS_CHANNEL_TYPE_DUPLEX_SESSION WS_TCP_CHANNEL_BINDING
          properties (Some h) w =
        (fst (override (length listener_props)
                (overridden (length listener_props) default_table pre) p), Some h,
         emit [Ev_heap_alloc_listener, Ev_InitializeCriticalSection, Ev_closesocket 0,
               Ev_DeleteCriticalSection, Ev_heap_free_listener] w)) \<and>
   ((\<forall>k < length properties.
       fst (override (length listener_props)
              (overridden (length listener_props) default_table (take k properties))
              (properties ! k)) = S_OK) \<longrightarrow>
      create_listener True ty bnd properties w =
        (S_OK,
         Some \<lparr>magic = LISTENER_MAGIC, channel_type = ty, binding = bnd,
               state = WS_LISTENER_STATE_CREATED, socket = INVALID_SOCKET,
               prop_count = length listener_props,
               props = overridden (length listener_props) default_table properties\<rparr>,
         emit [Ev_heap_alloc_listener, Ev_InitializeCriticalSection] w))"
proof -
  let ?n = "length listener_props"
  have "create_listener True ty bnd properties w =
        (S_OK,
         Some \<lparr>magic = LISTENER_MAGIC, channel_type = ty, binding = bnd,
               state = WS_LISTENER_STATE_CREATED, socket = INVALID_SOCKET,
               prop_count = ?n, props = overridden ?n default_table properties\<rparr>,
         emit [Ev_heap_alloc_listener, Ev_InitializeCriticalSection] w)"
    if "\<forall>k < length properties.
       fst (override ?n (overridden ?n default_table (take k properties)) (properties ! k)) = S_OK"
    using set_properties_all_ok [OF that] by (simp add: create_listener_table)
  moreover have "WsCreateListener True WS_CHANNEL_TYPE_DUPLEX_SESSION WS_TCP_CHANNEL_BINDING
          (pre @ p # post) (Some h) w =
        (fst (override ?n (overridden ?n default_table pre) p), Some h,
         emit [Ev_heap_alloc_listener, Ev_InitializeCriticalSection, Ev_closesocket 0,
               Ev_DeleteCriticalSection, Ev_heap_free_listener] w)"
    if "\<forall>k < length pre.
       fst (override ?n (overridden ?n default_table (take k pre)) (pre ! k)) = S_OK"
      and "fst (override ?n (overridden ?n default_table pre) p) \<noteq> S_OK"
    using create_listener_first_failure [OF that] that(2)
    by (simp add: WsCreateListener_def)
  ultimately show ?thesis
    using create_listener_first_failure [of pre p ty bnd post w] by blast
qed

lemma override_backlog_5:
  "override (length listener_props) default_table backlog_5 =
     (S_OK, default_table[0 := (default_table ! 0)\<lparr>bytes_p := [5, 0, 0, 0]\<rparr>])"
  by (simp add: override_def prop_set_def backlog_5_def default_table_def prop_init_def
      listener_props_def sizeof_ULONG_def)

lemma override_state_3:
  "override (length listener_props)
     (default_table[0 := (default_table ! 0)\<lparr>bytes_p := [5, 0, 0, 0]\<rparr>]) state_3 =
     (E_INVALIDARG, default_table[0 := (default_table ! 0)\<lparr>bytes_p := [5, 0, 0, 0]\<rparr>])"
  by (simp add: override_def prop_set_def state_3_def default_table_def prop_init_def
      listener_props_def)

theorem create_applies_overrides_in_order_witness:
  "create_listener True WS_CHANNEL_TYPE_DUPLEX_SESSION WS_TCP_CHANNEL_BINDING
     [backlog_5, state_3, ip_version_1] fresh_world =
     (E_INVALIDARG, None,
      emit [Ev_heap_alloc_listener, Ev_InitializeCriticalSection, Ev_closesocket 0,
            Ev_DeleteCriticalSection, Ev_heap_free_listener] fresh_world)"
proof -
  let ?n = "length listener_props"
  have pre: "\<forall>k < length [backlog_5].
      fst (override ?n (overridden ?n default_table (take k [backlog_5])) ([backlog_5] ! k)) = S_OK"
    by (simp add: overridden_def override_backlog_5)
  have tbl: "overridden ?n default_table [backlog_5] =
      default_table[0 := (default_table ! 0)\<lparr>bytes_p := [5, 0, 0, 0]\<rparr>]"
    by (simp add: overridden_def override_backlog_5)
  have bad: "fst (override ?n (overridden ?n default_table [backlog_5]) state_3) = E_INVALIDARG"
    by (simp add: tbl override_state_3)
  then have bad': "fst (override ?n (overridden ?n default_table [backlog_5]) state_3) \<noteq> S_OK"
    by (simp add: codes_distinct)
  have split: "[backlog_5, state_3, ip_version_1] = [backlog_5] @ state_3 # [ip_version_1]"
    by simp
  from create_applies_overrides_in_order
    [of "[backlog_5, state_3, ip_version_1]" "[backlog_5]" state_3 "[ip_version_1]"
      WS_CHANNEL_TYPE_DUPLEX_SESSION WS_TCP_CHANNEL_BINDING fresh_world None]
    split pre bad'
  have "create_listener True WS_CHANNEL_TYPE_DUPLEX_SESSION WS_TCP_CHANNEL_BINDING
     [backlog_5, state_3, ip_version_1] fresh_world =
     (fst (override ?n (overridden ?n default_table [backlog_5]) state_3), None,
      emit [Ev_heap_alloc_listener, Ev_InitializeCriticalSection, Ev_closesocket 0,
            Ev_DeleteCriticalSection, Ev_heap_free_listener] fresh_world)"
    by blast
  with bad show ?thesis by simp
qed

section \<open>Order of the steps of opening\<close>









section \<open>Address resolution\<close>

lemma skip_other_families_none:
  "\<forall>i \<in> set res. ai_family i \<noteq> AF_INET \<and> ai_family i \<noteq> AF_INET6 \<Longrightarrow>
   skip_other_families res = []"
  by (induction res) auto

lemma skip_other_families_first:
  assumes "\<forall>i \<in> set pre. ai_family i \<noteq> AF_INET \<and> ai_family i \<noteq> AF_INET6"
    and "ai_family info = AF_INET \<or> ai_family info = AF_INET6"
  shows "skip_other_families (pre @ info # post) = info # post"
  using assms by (induction pre) auto

text \<open>
  Claim C6. For every host (a name as well as the null wildcard), \<^verbatim>\<open>resolve_hostname\<close>:
  when the lookup fails, returns the translation of the Winsock error code, which is not
  \<^verbatim>\<open>S_OK\<close> for a non-zero code; when the lookup returns no node of family \<^verbatim>\<open>AF_INET\<close> or
  \<^verbatim>\<open>AF_INET6\<close>, returns \<^verbatim>\<open>WS_E_ADDRESS_NOT_AVAILABLE\<close>; and otherwise returns \<^verbatim>\<open>S_OK\<close> with
  the address and length of the first node, in the order returned, whose family is one of
  the two, the nodes before it being skipped.
\<close>

theorem resolve_takes_first_inet:
  "(GetAddrInfoW_ret env \<noteq> 0 \<longrightarrow>
      resolve_hostname env host port addr w =
        (HRESULT_FROM_WIN32 (GetAddrInfoW_err env), addr, 0, emit [Ev_GetAddrInfoW host port] w) \<and>
      (GetAddrInfoW_err env \<noteq> 0 \<longrightarrow> HRESULT_FROM_WIN32 (GetAddrInfoW_err env) \<noteq> S_OK)) \<and>
   (GetAddrInfoW_ret env = 0 \<and>
    (\<forall>i \<in> set (GetAddrInfoW_res env). ai_family i \<noteq> AF_INET \<and> ai_family i \<noteq> AF_INET6) \<longrightarrow>
      resolve_hostname env host port addr w =
        (WS_E_ADDRESS_NOT_AVAILABLE, addr, 0,
         emit [Ev_GetAddrInfoW host port, Ev_FreeAddrInfoW] w)) \<and>
   (GetAddrInfoW_ret env = 0 \<and> GetAddrInfoW_res env = pre @ info # post \<and>
    (\<forall>i \<in> set pre. ai_family i \<noteq> AF_INET \<and> ai_family i \<noteq> AF_INET6) \<and>
    (ai_family info = AF_INET \<or> ai_family info = AF_INET6) \<longrightarrow>
      resolve_hostname env host port addr w =
        (S_OK, ai_addr info, ai_addrlen info,
         emit [Ev_GetAddrInfoW host port, Ev_FreeAddrInfoW] w))"
  by (auto simp: resolve_hostname_def Let_def emit_def HRESULT_FROM_WIN32_eq_S_OK
      skip_other_families_none skip_other_families_first)


theorem resolve_takes_first_inet_witness:
  "resolve_hostname good_answers (Some [0x6C, 0x6F]) 80 unused_storage fresh_world =
     (S_OK, loopback, 16, emit [Ev_GetAddrInfoW (Some [0x6C, 0x6F]) 80, Ev_FreeAddrInfoW] fresh_world) \<and>
   resolve_hostname lookup_fails (Some [0x6C, 0x6F]) 80 unused_storage fresh_world =
     (HRESULT_FROM_WIN32 11001, unused_storage, 0,
      emit [Ev_GetAddrInfoW (Some [0x6C, 0x6F]) 80] fresh_world) \<and>
   HRESULT_FROM_WIN32 11001 \<noteq> S_OK"
proof -
  let ?other = "\<lparr>ai_family = 1, ai_addr = unused_storage, ai_addrlen = 2\<rparr>"
  let ?inet = "\<lparr>ai_family = AF_INET, ai_addr = loopback, ai_addrlen = 16\<rparr>"
  have ok: "GetAddrInfoW_ret good_answers = 0"
    and res: "GetAddrInfoW_res good_answers = [?other] @ ?inet # []"
    by (simp_all add: good_answers_def)
  have pre: "\<forall>i \<in> set [?other]. ai_family i \<noteq> AF_INET \<and> ai_family i \<noteq> AF_INET6"
    by (simp add: AF_INET_def AF_INET6_def)
  have fam: "ai_family ?inet = AF_INET \<or> ai_family ?inet = AF_INET6"
    by simp
  have bad: "GetAddrInfoW_ret lookup_fails \<noteq> 0" "GetAddrInfoW_err lookup_fails = 11001"
    "GetAddrInfoW_err lookup_fails \<noteq> 0"
    by (simp_all add: lookup_fails_def)
  show ?thesis
    using ok res pre fam bad
      resolve_takes_first_inet [of good_answers "Some [0x6C, 0x6F]" 80 unused_storage
        fresh_world "[?other]" ?inet "[]"]
      resolve_takes_first_inet [of lookup_fails "Some [0x6C, 0x6F]" 80 unused_storage
        fresh_world "[]" ?inet "[]"]
    by simp
qed

section \<open>Property access\<close>

lemma prop_set_read_only:
  assumes "ident < count" and "readonly_p (ps ! ident)"
  shows "prop_set ps count ident val sz = (E_INVALIDARG, ps)"
  using assms by (simp add: prop_set_def)

lemma table_read_only:
  assumes "table_of_schema l" and "read_only_id ident"
  shows "ident < prop_count l \<and> readonly_p (props l ! ident)"
proof -
  from assms have n: "ident < length listener_props" and ro: "readonly_d (listener_props ! ident)"
    and cnt: "prop_count l = length listener_props"
    and eq: "map readonly_p (props l) = map readonly_d listener_props"
    by (simp_all add: table_of_schema_def read_only_id_def)
  from eq have len: "length (props l) = length listener_props"
    by (metis length_map)
  from eq have "map readonly_p (props l) ! ident = map readonly_d listener_props ! ident"
    by simp
  with n len ro cnt show ?thesis by simp
qed

lemma WsSetListenerProperty_read_only:
  assumes "magic l = LISTENER_MAGIC" and "table_of_schema l" and "read_only_id ident"
  shows "WsSetListenerProperty (Some l) ident val sz = (E_INVALIDARG, Some l)"
  using assms(1) table_read_only [OF assms(2,3)]
  by (simp add: WsSetListenerProperty_def prop_set_read_only)

lemma set_repeatedly_read_only:
  assumes "magic l = LISTENER_MAGIC" and "table_of_schema l"
    and "\<forall>c \<in> set calls. read_only_id (fst c)"
  shows "set_repeatedly (Some l) calls = (replicate (length calls) E_INVALIDARG, Some l)"
  using assms(3)
proof (induction calls)
  case Nil
  show ?case by simp
next
  case (Cons c calls)
  obtain ident val sz where c: "c = (ident, val, sz)"
    by (cases c) auto
  with Cons.prems have "read_only_id ident" by simp
  then have "WsSetListenerProperty (Some l) ident val sz = (E_INVALIDARG, Some l)"
    by (rule WsSetListenerProperty_read_only [OF assms(1,2)])
  with Cons c show ?case by simp
qed

lemma WsSetListenerProperty_frame:
  assumes "magic l = LISTENER_MAGIC"
  shows "\<exists>ps. snd (WsSetListenerProperty (Some l) ident val sz) = Some (l\<lparr>props := ps\<rparr>)"
proof -
  obtain hr ps where "prop_set (props l) (prop_count l) ident val sz = (hr, ps)"
    by (cases "prop_set (props l) (prop_count l) ident val sz")
  with assms have "snd (WsSetListenerProperty (Some l) ident val sz) = Some (l\<lparr>props := ps\<rparr>)"
    by (simp add: WsSetListenerProperty_def)
  then show ?thesis ..
qed

lemma set_repeatedly_frame:
  assumes "magic l = LISTENER_MAGIC"
  shows "\<exists>ps. snd (set_repeatedly (Some l) calls) = Some (l\<lparr>props := ps\<rparr>)"
  using assms
proof (induction calls arbitrary: l)
  case Nil
  have "Some l = Some (l\<lparr>props := props l\<rparr>)" by simp
  then show ?case by (metis set_repeatedly.simps(1) snd_conv)
next
  case (Cons c calls)
  obtain ident val sz where c: "c = (ident, val, sz)"
    by (cases c) auto
  obtain ps where ps: "snd (WsSetListenerProperty (Some l) ident val sz) = Some (l\<lparr>props := ps\<rparr>)"
    using WsSetListenerProperty_frame [OF Cons.prems] by blast
  have "magic (l\<lparr>props := ps\<rparr>) = LISTENER_MAGIC"
    using Cons.prems by simp
  from Cons.IH [OF this] obtain ps1 where
    "snd (set_repeatedly (Some (l\<lparr>props := ps\<rparr>)) calls) = Some (l\<lparr>props := ps1\<rparr>)"
    by auto
  with ps c show ?case
    by (auto split: prod.splits)
qed

lemma dedicated_read_only:
  "read_only_id WS_LISTENER_PROPERTY_STATE"
  "read_only_id WS_LISTENER_PROPERTY_CHANNEL_TYPE"
  "read_only_id WS_LISTENER_PROPERTY_CHANNEL_BINDING"
  by (simp_all add: read_only_id_def listener_props_def WS_LISTENER_PROPERTY_STATE_def
      WS_LISTENER_PROPERTY_CHANNEL_TYPE_def WS_LISTENER_PROPERTY_CHANNEL_BINDING_def)

lemma table_of_schema_created: "table_of_schema created_listener"
  by (simp add: table_of_schema_def created_listener_def prop_init_def)

text \<open>
  Every listener the constructor builds has such a table, whatever the overrides, and
  setting a property keeps it: \<^verbatim>\<open>prop_set\<close> writes the bytes of a slot only.
\<close>

lemma prop_set_keeps_flags:
  "map readonly_p (snd (prop_set ps count ident val sz)) = map readonly_p ps \<and>
   map size_p (snd (prop_set ps count ident val sz)) = map size_p ps"
  by (cases "ident < length ps")
    (simp_all add: prop_set_def map_update list_update_same_conv list_update_beyond)

lemma set_properties_keeps_flags:
  "map readonly_p (snd (set_properties ps count properties)) = map readonly_p ps \<and>
   map size_p (snd (set_properties ps count properties)) = map size_p ps"
proof (induction properties arbitrary: ps)
  case Nil
  show ?case by simp
next
  case (Cons p rest)
  show ?case
    using prop_set_keeps_flags [of ps count "id_prop p" "value_prop p" "valueSize_prop p"]
      Cons.IH [of "snd (prop_set ps count (id_prop p) (value_prop p) (valueSize_prop p))"]
    by (auto split: prod.splits)
qed

lemma create_listener_table_of_schema:
  assumes "create_listener ok ty bnd properties w = (S_OK, Some l, w1)"
  shows "table_of_schema l"
  using assms
    set_properties_keeps_flags [of "prop_init listener_props (length listener_props)"
      "length listener_props" properties]
  by (auto simp: create_listener_def alloc_listener_def Let_def table_of_schema_def
      prop_init_def split: prod.splits if_splits)

lemma WsSetListenerProperty_keeps_table_of_schema:
  assumes "table_of_schema l" and "WsSetListenerProperty (Some l) ident val sz = (hr, Some l1)"
  shows "table_of_schema l1"
  using assms prop_set_keeps_flags [of "props l" "prop_count l" ident val sz]
  by (auto simp: WsSetListenerProperty_def table_of_schema_def split: prod.splits if_splits)

text \<open>
  Claim C4. For a live listener whose table carries the flags of \<^verbatim>\<open>listener_props\<close>: the
  identifiers of the state, the channel type and the channel binding are read-only; in
  any sequence of \<^verbatim>\<open>WsSetListenerProperty\<close> calls that all target read-only identifiers, each
  call returns \<^verbatim>\<open>E_INVALIDARG\<close> and the listener, its property table included, is
  afterwards what it was; and after any sequence of calls whatever, the fields \<open>state\<close>,
  \<open>channel_type\<close> and \<open>binding\<close> hold what they held before.
\<close>

theorem set_rejects_read_only:
  assumes live: "magic l = LISTENER_MAGIC" and tbl: "table_of_schema l"
  shows "read_only_id WS_LISTENER_PROPERTY_STATE \<and>
         read_only_id WS_LISTENER_PROPERTY_CHANNEL_TYPE \<and>
         read_only_id WS_LISTENER_PROPERTY_CHANNEL_BINDING \<and>
         ((\<forall>c \<in> set calls. read_only_id (fst c)) \<longrightarrow>
            set_repeatedly (Some l) calls = (replicate (length calls) E_INVALIDARG, Some l)) \<and>
         (\<exists>l1. snd (set_repeatedly (Some l) any_calls) = Some l1 \<and> state l1 = state l \<and>
            channel_type l1 = channel_type l \<and> binding l1 = binding l)"
proof -
  obtain ps where "snd (set_repeatedly (Some l) any_calls) = Some (l\<lparr>props := ps\<rparr>)"
    using set_repeatedly_frame [OF live] by blast
  then have "\<exists>l1. snd (set_repeatedly (Some l) any_calls) = Some l1 \<and> state l1 = state l \<and>
            channel_type l1 = channel_type l \<and> binding l1 = binding l"
    by simp
  then show ?thesis
    using set_repeatedly_read_only [OF live tbl, of calls] dedicated_read_only
    by blast
qed

theorem set_rejects_read_only_witness:
  "magic created_listener = LISTENER_MAGIC \<and> table_of_schema created_listener \<and>
   set_repeatedly (Some created_listener)
     [(WS_LISTENER_PROPERTY_STATE, [3, 0, 0, 0], 4),
      (WS_LISTENER_PROPERTY_CHANNEL_TYPE, [1, 0, 0, 0], 4),
      (WS_LISTENER_PROPERTY_CHANNEL_BINDING, [0, 0, 0, 0], 4),
      (WS_LISTENER_PROPERTY_CUSTOM_LISTENER_INSTANCE, [0, 0, 0, 0, 0, 0, 0, 0], 8)] =
     ([E_INVALIDARG, E_INVALIDARG, E_INVALIDARG, E_INVALIDARG], Some created_listener)"
proof -
  let ?calls = "[(WS_LISTENER_PROPERTY_STATE, [3, 0, 0, 0], 4),
      (WS_LISTENER_PROPERTY_CHANNEL_TYPE, [1, 0, 0, 0], 4),
      (WS_LISTENER_PROPERTY_CHANNEL_BINDING, [0, 0, 0, 0], 4),
      (WS_LISTENER_PROPERTY_CUSTOM_LISTENER_INSTANCE, [0, 0, 0, 0, 0, 0, 0, 0], 8)]
      :: (nat \<times> byte list \<times> nat) list"
  have live: "magic created_listener = LISTENER_MAGIC"
    by (simp add: created_listener_def)
  have tbl: "table_of_schema created_listener"
    by (rule table_of_schema_created)
  have ro: "\<forall>c \<in> set ?calls. read_only_id (fst c)"
    by (simp add: read_only_id_def listener_props_def WS_LISTENER_PROPERTY_STATE_def
      WS_LISTENER_PROPERTY_CHANNEL_TYPE_def WS_LISTENER_PROPERTY_CHANNEL_BINDING_def
      WS_LISTENER_PROPERTY_CUSTOM_LISTENER_INSTANCE_def)
  show ?thesis
    using live tbl ro set_rejects_read_only [OF live tbl, of ?calls "[]"]
    by simp
qed

text \<open>
  Claim C10. For a live listener and the identifier of the state, the channel type or the
  channel binding: \<^verbatim>\<open>WsGetListenerProperty\<close> with a null buffer returns \<^verbatim>\<open>E_INVALIDARG\<close>, as
  it does with a size other than 4; whenever it returns a code other than \<^verbatim>\<open>S_OK\<close> the
  buffer holds what it held before; and with a buffer and the size 4 it returns \<^verbatim>\<open>S_OK\<close>.
\<close>

theorem get_dedicated_property_checks:
  assumes live: "magic l = LISTENER_MAGIC"
    and dedicated: "ident = WS_LISTENER_PROPERTY_STATE \<or>
      ident = WS_LISTENER_PROPERTY_CHANNEL_TYPE \<or> ident = WS_LISTENER_PROPERTY_CHANNEL_BINDING"
  shows "WsGetListenerProperty (Some l) ident None sz = (E_INVALIDARG, None) \<and>
         (sz \<noteq> 4 \<longrightarrow> WsGetListenerProperty (Some l) ident buf sz = (E_INVALIDARG, buf)) \<and>
         (fst (WsGetListenerProperty (Some l) ident buf sz) \<noteq> S_OK \<longrightarrow>
            snd (WsGetListenerProperty (Some l) ident buf sz) = buf) \<and>
         fst (WsGetListenerProperty (Some l) ident (Some b) 4) = S_OK"
  using assms
  by (auto simp: WsGetListenerProperty_def sizeof_state_def sizeof_type_def sizeof_binding_def
      sizeof_enum_def WS_LISTENER_PROPERTY_STATE_def WS_LISTENER_PROPERTY_CHANNEL_TYPE_def
      WS_LISTENER_PROPERTY_CHANNEL_BINDING_def)

theorem get_dedicated_property_checks_witness:
  "magic created_listener = LISTENER_MAGIC \<and>
   WsGetListenerProperty (Some created_listener) WS_LISTENER_PROPERTY_STATE None 4 =
     (E_INVALIDARG, None) \<and>
   WsGetListenerProperty (Some created_listener) WS_LISTENER_PROPERTY_CHANNEL_TYPE
     (Some (Buf_bytes [1, 2, 3, 4, 5, 6, 7, 8])) 8 =
     (E_INVALIDARG, Some (Buf_bytes [1, 2, 3, 4, 5, 6, 7, 8]))"
proof -
  have live: "magic created_listener = LISTENER_MAGIC"
    by (simp add: created_listener_def)
  have size: "(8::nat) \<noteq> 4"
    by simp
  show ?thesis
    using live size
      get_dedicated_property_checks [OF live, of WS_LISTENER_PROPERTY_STATE 4]
      get_dedicated_property_checks [OF live, of WS_LISTENER_PROPERTY_CHANNEL_TYPE 8
        "Some (Buf_bytes [1, 2, 3, 4, 5, 6, 7, 8])"]
    by blast
qed

section \<open>The identity guard and the state invariant\<close>

text \<open>
  An object whose tag is not \<^verbatim>\<open>LISTENER_MAGIC\<close>, such as one whose tag \<^verbatim>\<open>WsFreeListener\<close> has
  just cleared, is rejected by every operation and left as it is.
\<close>

lemma cleared_tag_rejected:
  assumes "magic l \<noteq> LISTENER_MAGIC"
  shows "WsOpenListener env (Some l) url w = (E_INVALIDARG, Some l, w)"
    and "WsCloseListener (Some l) w = (E_INVALIDARG, Some l, w)"
    and "WsGetListenerProperty (Some l) ident buf sz = (E_INVALIDARG, buf)"
    and "WsSetListenerProperty (Some l) ident val sz = (E_INVALIDARG, Some l)"
    and "WsFreeListener (Some l) w = (Some l, w)"
  using assms
  by (simp_all add: WsOpenListener_def WsCloseListener_def WsGetListenerProperty_def
      WsSetListenerProperty_def WsFreeListener_def split: option.splits)

text \<open>
  A listener in state \<open>Created\<close> has no socket: the constructor establishes it, and
  opening, closing and setting properties keep it.
\<close>

lemma create_listener_absent:
  assumes "create_listener ok ty bnd properties w = (S_OK, Some l, w1)"
  shows "magic l = LISTENER_MAGIC \<and> state l = WS_LISTENER_STATE_CREATED \<and>
         socket l = INVALID_SOCKET"
  using assms
  by (auto simp: create_listener_def alloc_listener_def Let_def INVALID_SOCKET_def
      split: prod.splits if_splits)

lemma open_keeps_created_absent:
  assumes "state l = WS_LISTENER_STATE_CREATED \<longrightarrow> socket l = INVALID_SOCKET"
    and "WsOpenListener env (Some l) url w = (hr, Some l1, w1)"
  shows "state l1 = WS_LISTENER_STATE_CREATED \<longrightarrow> socket l1 = INVALID_SOCKET"
  using assms
  by (auto simp: WsOpenListener_def open_listener_def Let_def INVALID_SOCKET_def
      split: option.splits sum.splits prod.splits if_splits)

lemma close_keeps_created_absent:
  assumes "WsCloseListener (Some l) w = (S_OK, Some l1, w1)"
  shows "state l1 = WS_LISTENER_STATE_CREATED \<longrightarrow> socket l1 = INVALID_SOCKET"
  using assms
  by (auto simp: WsCloseListener_def close_listener_def reset_listener_def codes_distinct
      split: if_splits)

end
